theory Spec2Isabelle
  imports Complex_Main "HOL-Library.Sublist"
begin

section \<open>Bounding boxes of SVG content: \<open>trim_svg.py\<close> and \<open>trim_svg_fixed.py\<close>\<close>

text \<open>
  The two scripts compute the bounding box of the shapes of an SVG document and rewrite
  the root's \<open>viewBox\<close>, \<open>width\<close> and \<open>height\<close>. Both are embedded here:
  the definitions of \<open>trim_svg.py\<close> keep the source's names, those of
  \<open>trim_svg_fixed.py\<close> that would clash carry the suffix \<open>_fixed\<close>.

  Conventions of the embedding.
  \<^item> A Python \<open>str\<close> is a \<^typ>\<open>string\<close>; every \<^typ>\<open>char\<close> stands for one code point
    below 256.
  \<^item> A Python \<open>float\<close> is a \<^typ>\<open>real\<close>: arithmetic is exact, rounding to binary
    doubles and the not-a-number value are outside the embedding. The two infinities
    appear only as the start values of the running minimum and maximum of
    \<open>calculate_content_bounds\<close> and are part of the type \<open>xfloat\<close> below.
  \<^item> An exception is a value \<open>Inl e\<close> of the type \<open>error + 'a\<close>.
  \<^item> The document tree that \<open>ElementTree\<close> or \<open>lxml\<close> parses is the datatype
    \<open>element\<close>: a tag, the attributes in document order and the child elements.
    Parsing and serialising are the libraries' work and are not embedded.
\<close>

subsection \<open>Characters and strings\<close>

definition is_digit :: "char \<Rightarrow> bool" where
  \<comment> \<open>\<open>\d\<close> of \<open>re\<close>, on code points below 256\<close>
  "is_digit c = (c \<in> set ''0123456789'')"

definition is_space :: "char \<Rightarrow> bool" where
  \<comment> \<open>\<open>\s\<close> of \<open>re\<close> and the whitespace of \<open>str.strip\<close>, \<open>str.split\<close> and \<open>float\<close>,
      on code points below 256\<close>
  "is_space c = ((of_char c :: nat) \<in> set [9, 10, 11, 12, 13, 28, 29, 30, 31, 32, 133, 160])"

definition digit_val :: "char \<Rightarrow> nat" where
  "digit_val c = of_char c - 48"

definition digits_val :: "string \<Rightarrow> nat" where
  "digits_val ds = foldl (\<lambda>n c. 10 * n + digit_val c) 0 ds"

definition strip :: "string \<Rightarrow> string" where
  \<comment> \<open>\<open>s.strip()\<close>\<close>
  "strip s = rev (dropWhile is_space (rev (dropWhile is_space s)))"

fun split_ws :: "string \<Rightarrow> string \<Rightarrow> string list" where
  \<comment> \<open>\<open>s.split()\<close>: the maximal runs of characters that are not whitespace; the first
      argument is the run being read\<close>
  "split_ws w [] = (if w = [] then [] else [w])"
| "split_ws w (c # cs) =
     (if is_space c then (if w = [] then split_ws [] cs else w # split_ws [] cs)
      else split_ws (w @ [c]) cs)"

definition endswith :: "string \<Rightarrow> string \<Rightarrow> bool" where
  \<comment> \<open>\<open>s.endswith(suf)\<close>\<close>
  "endswith s suf = (length suf \<le> length s \<and> drop (length s - length suf) s = suf)"

subsection \<open>The regular expressions of the two scripts\<close>

text \<open>
  The patterns of the scripts use one-character classes, literals, greedy \<open>*\<close> and \<open>+\<close>
  on a class, greedy \<open>?\<close> and capture groups. \<open>rx_match r (g, s)\<close> lists every way in
  which \<open>r\<close> matches a prefix of \<open>s\<close>, in the order in which the backtracking matcher of
  \<open>re\<close> tries them (longest repetition first, the optional part present first), each with
  the groups captured and the text left over. The head of the list is the match that
  \<open>re\<close> reports.
\<close>

datatype rx =
    Chr "char \<Rightarrow> bool"
  | Str string
  | Star "char \<Rightarrow> bool"
  | Plus "char \<Rightarrow> bool"
  | Opt rx
  | Seq rx rx
  | Grp nat rx

type_synonym caps = "(nat \<times> string) list"

fun rx_match :: "rx \<Rightarrow> caps \<times> string \<Rightarrow> (caps \<times> string) list" where
  "rx_match (Chr p) (g, s) = (case s of [] \<Rightarrow> [] | c # cs \<Rightarrow> if p c then [(g, cs)] else [])"
| "rx_match (Str w) (g, s) = (if prefix w s then [(g, drop (length w) s)] else [])"
| "rx_match (Star p) (g, s) = map (\<lambda>k. (g, drop k s)) (rev [0..<Suc (length (takeWhile p s))])"
| "rx_match (Plus p) (g, s) = map (\<lambda>k. (g, drop k s)) (rev [1..<Suc (length (takeWhile p s))])"
| "rx_match (Opt r) st = rx_match r st @ [st]"
| "rx_match (Seq a b) st = concat (map (rx_match b) (rx_match a st))"
| "rx_match (Grp n r) (g, s) =
     map (\<lambda>(g', rest). ((n, take (length s - length rest) s) # g', rest)) (rx_match r (g, s))"

fun seqs :: "rx list \<Rightarrow> rx" where
  "seqs [] = Str []"
| "seqs [r] = r"
| "seqs (r # rs) = Seq r (seqs rs)"

fun re_search :: "rx \<Rightarrow> string \<Rightarrow> (caps \<times> string) option" where
  \<comment> \<open>\<open>re.search\<close>: the first match at the leftmost position that has one\<close>
  "re_search r [] = (case rx_match r ([], []) of [] \<Rightarrow> None | m # _ \<Rightarrow> Some m)"
| "re_search r (c # cs) =
     (case rx_match r ([], c # cs) of [] \<Rightarrow> re_search r cs | m # _ \<Rightarrow> Some m)"

definition re_match :: "rx \<Rightarrow> string \<Rightarrow> string option" where
  \<comment> \<open>\<open>re.match(...)\<close>: the text matched at the start of the string, if any\<close>
  "re_match r s =
     (case rx_match r ([], s) of [] \<Rightarrow> None
      | (g, rest) # _ \<Rightarrow> Some (take (length s - length rest) s))"

fun re_findall :: "rx \<Rightarrow> nat \<Rightarrow> string \<Rightarrow> string list" where
  \<comment> \<open>\<open>re.findall\<close> for a pattern without groups: the matches from left to right, none
      overlapping; the number says how many characters still belong to the last match\<close>
  "re_findall r k [] = []"
| "re_findall r k (c # cs) =
     (if 0 < k then re_findall r (k - 1) cs
      else (case rx_match r ([], c # cs) of
              [] \<Rightarrow> re_findall r 0 cs
            | (g, rest) # _ \<Rightarrow>
                take (Suc (length cs) - length rest) (c # cs)
                  # re_findall r (length cs - length rest) cs))"

definition NUM :: rx where
  \<comment> \<open>\<open>[-+]?\d*\.?\d+\<close>\<close>
  "NUM = seqs [Opt (Chr (\<lambda>c. c \<in> set ''-+'')), Star is_digit,
               Opt (Chr (\<lambda>c. c = CHR ''.'')), Plus is_digit]"

definition NUM_EXP :: rx where
  \<comment> \<open>\<open>[-+]?\d*\.?\d+(?:[eE][-+]?\d+)?\<close>\<close>
  "NUM_EXP = seqs [Opt (Chr (\<lambda>c. c \<in> set ''-+'')), Star is_digit,
                   Opt (Chr (\<lambda>c. c = CHR ''.'')), Plus is_digit,
                   Opt (seqs [Chr (\<lambda>c. c \<in> set ''eE''), Opt (Chr (\<lambda>c. c \<in> set ''-+'')),
                              Plus is_digit])]"

definition is_cmd :: "char \<Rightarrow> bool" where
  "is_cmd c = (c \<in> set ''MLHVCSQTAZmlhvcsqtaz'')"

definition CMD :: rx where
  \<comment> \<open>\<open>[MLHVCSQTAZmlhvcsqtaz][^MLHVCSQTAZmlhvcsqtaz]*\<close>\<close>
  "CMD = Seq (Chr is_cmd) (Star (\<lambda>c. \<not> is_cmd c))"

definition TRANSLATE :: rx where
  \<comment> \<open>\<open>translate\s*\(\s*([-+]?\d*\.?\d+)\s*,?\s*([-+]?\d*\.?\d+)?\s*\)\<close>\<close>
  "TRANSLATE = seqs [Str ''translate'', Star is_space, Chr (\<lambda>c. c = CHR ''(''), Star is_space,
     Grp 1 NUM, Star is_space, Opt (Chr (\<lambda>c. c = CHR '','')), Star is_space, Opt (Grp 2 NUM),
     Star is_space, Chr (\<lambda>c. c = CHR '')'')]"

subsection \<open>Numbers\<close>

datatype error = ValueError | AttributeError | IndexError | TypeError | NotReal

text \<open>
  The first four are Python's exceptions. \<open>NotReal\<close> is no exception: it marks a run in
  which \<open>float\<close> returns an infinity or not-a-number (from a text such as \<open>inf\<close> or
  \<open>nan\<close>), a value that the embedding does not follow any further.
\<close>

definition bnd :: "error + 'a \<Rightarrow> ('a \<Rightarrow> error + 'b) \<Rightarrow> error + 'b" where
  \<comment> \<open>sequencing: an exception of the first computation ends the second\<close>
  "bnd m f = (case m of Inl e \<Rightarrow> Inl e | Inr v \<Rightarrow> f v)"

definition is_fspace :: "char \<Rightarrow> bool" where
  \<comment> \<open>the whitespace that \<open>float\<close> removes around a number, on code points below 256\<close>
  "is_fspace c = ((of_char c :: nat) \<in> set [9, 10, 11, 12, 13, 32, 133, 160])"

definition fstrip :: "string \<Rightarrow> string" where
  "fstrip s = rev (dropWhile is_fspace (rev (dropWhile is_fspace s)))"

fun ungroup :: "char \<Rightarrow> string \<Rightarrow> string option" where
  \<comment> \<open>\<open>float\<close> accepts an underscore between two digits and drops it; the first
      argument is the character before\<close>
  "ungroup p [] = Some []"
| "ungroup p (c # cs) =
     (if c = CHR ''_'' then
        (if is_digit p \<and> (case cs of [] \<Rightarrow> False | d # _ \<Rightarrow> is_digit d)
         then ungroup c cs else None)
      else map_option ((#) c) (ungroup c cs))"

definition unsigned :: "string \<Rightarrow> string" where
  \<comment> \<open>the text after a leading sign\<close>
  "unsigned t = (case t of [] \<Rightarrow> [] | c # r \<Rightarrow> if c = CHR ''-'' \<or> c = CHR ''+'' then r else t)"

definition negative :: "string \<Rightarrow> bool" where
  "negative t = (case t of [] \<Rightarrow> False | c # _ \<Rightarrow> c = CHR ''-'')"

definition lower :: "char \<Rightarrow> char" where
  "lower c = (case map_of (zip ''ABCDEFGHIJKLMNOPQRSTUVWXYZ'' ''abcdefghijklmnopqrstuvwxyz'') c of
                None \<Rightarrow> c | Some d \<Rightarrow> d)"

definition is_inf_nan :: "string \<Rightarrow> bool" where
  "is_inf_nan t = (map lower (unsigned t) \<in> set [''inf'', ''infinity'', ''nan''])"

definition decimal :: "string \<Rightarrow> real option" where
  \<comment> \<open>a decimal literal: a sign, digits with at most one point and at least one digit, an
      exponent; its value as a real number\<close>
  "decimal t =
     (let u = unsigned t;
          ip = takeWhile is_digit u;
          v = dropWhile is_digit u;
          dot = (case v of [] \<Rightarrow> False | c # _ \<Rightarrow> c = CHR ''.'');
          fp = (if dot then takeWhile is_digit (tl v) else []);
          w = (if dot then dropWhile is_digit (tl v) else v);
          m = real (digits_val ip) + real (digits_val fp) / 10 ^ length fp;
          sm = (if negative t then - m else m)
      in if ip = [] \<and> fp = [] then None
         else (case w of
                 [] \<Rightarrow> Some sm
               | c # x \<Rightarrow>
                   if c = CHR ''e'' \<or> c = CHR ''E'' then
                     (if unsigned x \<noteq> [] \<and> list_all is_digit (unsigned x)
                      then Some (if negative x then sm / 10 ^ digits_val (unsigned x)
                                 else sm * 10 ^ digits_val (unsigned x))
                      else None)
                   else None))"

definition to_float :: "string \<Rightarrow> error + real" where
  \<comment> \<open>\<open>float(s)\<close> for a string \<open>s\<close>\<close>
  "to_float s =
     (case ungroup (CHR '' '') (fstrip s) of
        None \<Rightarrow> Inl ValueError
      | Some t \<Rightarrow>
          (case decimal t of
             Some v \<Rightarrow> Inr v
           | None \<Rightarrow> if is_inf_nan t then Inl NotReal else Inl ValueError))"

fun floats :: "string list \<Rightarrow> error + real list" where
  \<comment> \<open>\<open>[float(c) for c in coords]\<close>\<close>
  "floats [] = Inr []"
| "floats (c # cs) = bnd (to_float c) (\<lambda>v. bnd (floats cs) (\<lambda>vs. Inr (v # vs)))"

definition py_min :: "real list \<Rightarrow> real" where
  \<comment> \<open>\<open>min(xs)\<close> of a list that is not empty: the running minimum from the first element\<close>
  "py_min xs = foldl (\<lambda>m v. if v < m then v else m) (hd xs) (tl xs)"

definition py_max :: "real list \<Rightarrow> real" where
  \<comment> \<open>\<open>max(xs)\<close> of a list that is not empty\<close>
  "py_max xs = foldl (\<lambda>m v. if m < v then v else m) (hd xs) (tl xs)"

subsection \<open>Rectangles and their aggregation\<close>

record rect =
  min_x :: real
  max_x :: real
  min_y :: real
  max_y :: real


definition shift :: "rect \<Rightarrow> real \<Rightarrow> real \<Rightarrow> rect" where
  \<comment> \<open>\<open>bounds['min_x'] += tx\<close> and the three other updates\<close>
  "shift b tx ty = \<lparr>min_x = min_x b + tx, max_x = max_x b + tx,
                    min_y = min_y b + ty, max_y = max_y b + ty\<rparr>"

datatype xfloat = NegInf | Fin real | PosInf

fun xless :: "xfloat \<Rightarrow> xfloat \<Rightarrow> bool" where
  \<comment> \<open>\<open>a < b\<close> on floats that may be infinite\<close>
  "xless (Fin a) (Fin b) = (a < b)"
| "xless (Fin a) PosInf = True"
| "xless (Fin a) NegInf = False"
| "xless NegInf NegInf = False"
| "xless NegInf (Fin b) = True"
| "xless NegInf PosInf = True"
| "xless PosInf b = False"

definition xmin :: "xfloat \<Rightarrow> xfloat \<Rightarrow> xfloat" where
  \<comment> \<open>\<open>min(a, b)\<close>\<close>
  "xmin a b = (if xless b a then b else a)"

definition xmax :: "xfloat \<Rightarrow> xfloat \<Rightarrow> xfloat" where
  \<comment> \<open>\<open>max(a, b)\<close>\<close>
  "xmax a b = (if xless a b then b else a)"

text \<open>
  The four running values \<open>min_x, max_x, min_y, max_y\<close> of the loop of
  \<open>calculate_content_bounds\<close>. Before the first rectangle they are
  \<open>inf, -inf, inf, -inf\<close>, the value \<open>no_content\<close>.
\<close>

record extent =
  e_min_x :: xfloat
  e_max_x :: xfloat
  e_min_y :: xfloat
  e_max_y :: xfloat

definition no_content :: extent where
  "no_content = \<lparr>e_min_x = PosInf, e_max_x = NegInf, e_min_y = PosInf, e_max_y = NegInf\<rparr>"

definition of_rect :: "rect \<Rightarrow> extent" where
  "of_rect b = \<lparr>e_min_x = Fin (min_x b), e_max_x = Fin (max_x b),
               e_min_y = Fin (min_y b), e_max_y = Fin (max_y b)\<rparr>"

definition combine :: "extent \<Rightarrow> extent \<Rightarrow> extent" where
  \<comment> \<open>the body of the loop of \<open>calculate_content_bounds\<close>:
      \<open>min_x = min(min_x, bounds['min_x'])\<close>, \<open>max_x = max(max_x, bounds['max_x'])\<close>,
      and the same for \<open>y\<close>\<close>
  "combine a b = \<lparr>e_min_x = xmin (e_min_x a) (e_min_x b), e_max_x = xmax (e_max_x a) (e_max_x b),
                   e_min_y = xmin (e_min_y a) (e_min_y b), e_max_y = xmax (e_max_y a) (e_max_y b)\<rparr>"

definition merge_all :: "rect list \<Rightarrow> rect" where
  \<comment> \<open>"Merge all bounds" of \<open>trim_svg\<close> in \<open>trim_svg_fixed.py\<close>, on a list that is not
      empty: \<open>min(b['min_x'] for b in all_bounds)\<close> and the three others\<close>
  "merge_all bs = \<lparr>min_x = py_min (map min_x bs), max_x = py_max (map max_x bs),
                    min_y = py_min (map min_y bs), max_y = py_max (map max_y bs)\<rparr>"

subsection \<open>The document tree\<close>

datatype element = Element (tag: string) (attrib: "(string \<times> string) list") (children: "element list")

definition get_attr :: "element \<Rightarrow> string \<Rightarrow> string option" where
  \<comment> \<open>\<open>element.get(k)\<close>\<close>
  "get_attr e k = map_of (attrib e) k"

definition float_attr :: "element \<Rightarrow> string \<Rightarrow> error + real" where
  \<comment> \<open>\<open>float(element.get(k, 0))\<close>\<close>
  "float_attr e k = (case get_attr e k of None \<Rightarrow> Inr 0 | Some s \<Rightarrow> to_float s)"

definition non_visual_tags :: "string list" where
  "non_visual_tags = [''defs'', ''metadata'', ''title'', ''desc'', ''script'', ''style'']"

fun evens :: "'a list \<Rightarrow> 'a list" where
  \<comment> \<open>\<open>coords[0::2]\<close>\<close>
  "evens [] = []"
| "evens [a] = [a]"
| "evens (a # b # r) = a # evens r"

fun odds :: "'a list \<Rightarrow> 'a list" where
  \<comment> \<open>\<open>coords[1::2]\<close>\<close>
  "odds [] = []"
| "odds [a] = []"
| "odds (a # b # r) = b # odds r"

text \<open>
  The loops \<open>for i in range(0, len(coords), k): if i + k - 1 < len(coords): ...\<close> run
  their body once for every complete group of \<open>k\<close> operands, from the left; the
  operands left over at the end are dropped.
\<close>

fun pairs :: "'a list \<Rightarrow> ('a \<times> 'a) list" where
  "pairs (a # b # r) = (a, b) # pairs r"
| "pairs _ = []"

fun quads :: "'a list \<Rightarrow> ('a \<times> 'a \<times> 'a \<times> 'a) list" where
  "quads (a # b # c # d # r) = (a, b, c, d) # quads r"
| "quads _ = []"

fun sixes :: "'a list \<Rightarrow> ('a \<times> 'a \<times> 'a \<times> 'a \<times> 'a \<times> 'a) list" where
  "sixes (a # b # c # d # e # f # r) = (a, b, c, d, e, f) # sixes r"
| "sixes _ = []"

fun sevens :: "'a list \<Rightarrow> ('a \<times> 'a \<times> 'a \<times> 'a \<times> 'a \<times> 'a \<times> 'a) list" where
  "sevens (a # b # c # d # e # f # g # r) = (a, b, c, d, e, f, g) # sevens r"
| "sevens _ = []"

subsection \<open>A translation out of a \<open>transform\<close> attribute\<close>

definition translate_match :: "string \<Rightarrow> (error + real \<times> real) option" where
  \<comment> \<open>\<open>re.search(r'translate...', transform)\<close> and, on a match,
      \<open>tx = float(m.group(1))\<close>, \<open>ty = float(m.group(2)) if m.group(2) else 0\<close>.
      \<open>None\<close>: no match.\<close>
  "translate_match transform =
     (case re_search TRANSLATE transform of
        None \<Rightarrow> None
      | Some (g, rest) \<Rightarrow>
          Some (bnd (case map_of g 1 of None \<Rightarrow> Inl TypeError | Some t \<Rightarrow> to_float t) (\<lambda>tx.
                bnd (case map_of g 2 of None \<Rightarrow> Inr 0
                     | Some t \<Rightarrow> if t \<noteq> [] then to_float t else Inr 0) (\<lambda>ty.
                Inr (tx, ty)))))"

definition parse_transform :: "string \<Rightarrow> error + real \<times> real" where
  \<comment> \<open>\<open>parse_transform\<close> of \<open>trim_svg_fixed.py\<close>\<close>
  "parse_transform transform_str =
     (if transform_str = [] then Inr (0, 0)
      else (case translate_match transform_str of None \<Rightarrow> Inr (0, 0) | Some r \<Rightarrow> r))"

subsection \<open>\<open>trim_svg.py\<close>: the path parser that reads the commands\<close>

record path_state =
  current_x :: real
  current_y :: real
  x_coords :: "real list"
  y_coords :: "real list"

definition line_abs :: "path_state \<Rightarrow> real \<times> real \<Rightarrow> path_state" where
  \<comment> \<open>\<open>current_x = coords[i]; current_y = coords[i + 1]\<close>, then both appended\<close>
  "line_abs st p =
     st\<lparr>current_x := fst p, current_y := snd p,
        x_coords := x_coords st @ [fst p], y_coords := y_coords st @ [snd p]\<rparr>"

definition line_rel :: "path_state \<Rightarrow> real \<times> real \<Rightarrow> path_state" where
  \<comment> \<open>\<open>current_x += coords[i]; current_y += coords[i + 1]\<close>, then both appended\<close>
  "line_rel st p =
     st\<lparr>current_x := current_x st + fst p, current_y := current_y st + snd p,
        x_coords := x_coords st @ [current_x st + fst p],
        y_coords := y_coords st @ [current_y st + snd p]\<rparr>"

definition path_cmd :: "char \<Rightarrow> real list \<Rightarrow> path_state \<Rightarrow> path_state" where
  \<comment> \<open>the \<open>if\<close>/\<open>elif\<close> chain on \<open>cmd_letter\<close>, in the source's order; a letter with no
      branch leaves the state as it is\<close>
  "path_cmd l coords st =
     (if l = CHR ''M'' then
        (case coords of a # b # r \<Rightarrow> foldl line_abs (line_abs st (a, b)) (pairs r) | _ \<Rightarrow> st)
      else if l = CHR ''L'' then foldl line_abs st (pairs coords)
      else if l = CHR ''H'' then
        foldl (\<lambda>s c. s\<lparr>current_x := c, x_coords := x_coords s @ [c],
                        y_coords := y_coords s @ [current_y s]\<rparr>) st coords
      else if l = CHR ''V'' then
        foldl (\<lambda>s c. s\<lparr>current_y := c, x_coords := x_coords s @ [current_x s],
                        y_coords := y_coords s @ [c]\<rparr>) st coords
      else if l = CHR ''C'' then
        foldl (\<lambda>s (c0, c1, c2, c3, c4, c5).
                 s\<lparr>x_coords := x_coords s @ [c0, c2, c4], y_coords := y_coords s @ [c1, c3, c5],
                   current_x := c4, current_y := c5\<rparr>) st (sixes coords)
      else if l = CHR ''S'' then
        foldl (\<lambda>s (c0, c1, c2, c3).
                 s\<lparr>x_coords := x_coords s @ [c0, c2], y_coords := y_coords s @ [c1, c3],
                   current_x := c2, current_y := c3\<rparr>) st (quads coords)
      else if l = CHR ''Q'' then
        foldl (\<lambda>s (c0, c1, c2, c3).
                 s\<lparr>x_coords := x_coords s @ [c0, c2], y_coords := y_coords s @ [c1, c3],
                   current_x := c2, current_y := c3\<rparr>) st (quads coords)
      else if l = CHR ''T'' then foldl line_abs st (pairs coords)
      else if l = CHR ''A'' then
        foldl (\<lambda>s (c0, c1, c2, c3, c4, c5, c6). line_abs s (c5, c6)) st (sevens coords)
      else if l = CHR ''m'' then
        (case coords of a # b # r \<Rightarrow> foldl line_rel (line_rel st (a, b)) (pairs r) | _ \<Rightarrow> st)
      else if l = CHR ''l'' then foldl line_rel st (pairs coords)
      else if l = CHR ''h'' then
        foldl (\<lambda>s c. s\<lparr>current_x := current_x s + c, x_coords := x_coords s @ [current_x s + c],
                        y_coords := y_coords s @ [current_y s]\<rparr>) st coords
      else if l = CHR ''v'' then
        foldl (\<lambda>s c. s\<lparr>current_y := current_y s + c, x_coords := x_coords s @ [current_x s],
                        y_coords := y_coords s @ [current_y s + c]\<rparr>) st coords
      else if l = CHR ''c'' then
        foldl (\<lambda>s (c0, c1, c2, c3, c4, c5).
                 s\<lparr>x_coords := x_coords s @ [current_x s + c0, current_x s + c2, current_x s + c4],
                   y_coords := y_coords s @ [current_y s + c1, current_y s + c3, current_y s + c5],
                   current_x := current_x s + c4, current_y := current_y s + c5\<rparr>) st (sixes coords)
      else st)"

fun run_commands :: "string list \<Rightarrow> path_state \<Rightarrow> error + path_state" where
  \<comment> \<open>\<open>for cmd in commands\<close>\<close>
  "run_commands [] st = Inr st"
| "run_commands (cmd # cmds) st =
     (case cmd of
        [] \<Rightarrow> Inl IndexError
      | cmd_letter # r \<Rightarrow>
          (case (if strip r \<noteq> [] then floats (re_findall NUM 0 (strip r)) else Inr []) of
             Inl e \<Rightarrow> Inl e
           | Inr coords \<Rightarrow> run_commands cmds (path_cmd cmd_letter coords st)))"

definition bounds_of :: "real list \<Rightarrow> real list \<Rightarrow> rect option" where
  \<comment> \<open>\<open>if not x_coords or not y_coords: return None\<close>, else the four extrema\<close>
  "bounds_of xs ys =
     (if xs = [] \<or> ys = [] then None
      else Some \<lparr>min_x = py_min xs, max_x = py_max xs, min_y = py_min ys, max_y = py_max ys\<rparr>)"

definition parse_path_bounds :: "string \<Rightarrow> error + rect option" where
  "parse_path_bounds path_data =
     bnd (run_commands (re_findall CMD 0 path_data)
            \<lparr>current_x = 0, current_y = 0, x_coords = [], y_coords = []\<rparr>)
       (\<lambda>st. Inr (bounds_of (x_coords st) (y_coords st)))"

subsection \<open>\<open>trim_svg.py\<close>: the bounds of one element\<close>

definition shape_bounds :: "element \<Rightarrow> error + rect option" where
  \<comment> \<open>the first half of \<open>get_element_bounds\<close>: the \<open>if\<close>/\<open>elif\<close> chain on
      \<open>element.tag.endswith(...)\<close>, in the source's order\<close>
  "shape_bounds e =
     (if endswith (tag e) ''rect'' then
        bnd (float_attr e ''x'') (\<lambda>x. bnd (float_attr e ''y'') (\<lambda>y.
        bnd (float_attr e ''width'') (\<lambda>width. bnd (float_attr e ''height'') (\<lambda>height.
        Inr (Some \<lparr>min_x = x, max_x = x + width, min_y = y, max_y = y + height\<rparr>)))))
      else if endswith (tag e) ''circle'' then
        bnd (float_attr e ''cx'') (\<lambda>cx. bnd (float_attr e ''cy'') (\<lambda>cy.
        bnd (float_attr e ''r'') (\<lambda>r.
        Inr (Some \<lparr>min_x = cx - r, max_x = cx + r, min_y = cy - r, max_y = cy + r\<rparr>))))
      else if endswith (tag e) ''ellipse'' then
        bnd (float_attr e ''cx'') (\<lambda>cx. bnd (float_attr e ''cy'') (\<lambda>cy.
        bnd (float_attr e ''rx'') (\<lambda>rx. bnd (float_attr e ''ry'') (\<lambda>ry.
        Inr (Some \<lparr>min_x = cx - rx, max_x = cx + rx, min_y = cy - ry, max_y = cy + ry\<rparr>)))))
      else if endswith (tag e) ''path'' then
        (case get_attr e ''d'' of
           None \<Rightarrow> Inr None
         | Some d \<Rightarrow> if d \<noteq> [] then parse_path_bounds d else Inr None)
      else if endswith (tag e) ''line'' then
        bnd (float_attr e ''x1'') (\<lambda>x1. bnd (float_attr e ''y1'') (\<lambda>y1.
        bnd (float_attr e ''x2'') (\<lambda>x2. bnd (float_attr e ''y2'') (\<lambda>y2.
        Inr (Some \<lparr>min_x = min x1 x2, max_x = max x1 x2,
                   min_y = min y1 y2, max_y = max y1 y2\<rparr>)))))
      else if endswith (tag e) ''polygon'' \<or> endswith (tag e) ''polyline'' then
        (case get_attr e ''points'' of
           None \<Rightarrow> Inr None
         | Some points \<Rightarrow>
             if points \<noteq> [] then
               bnd (floats (re_findall NUM 0 points))
                 (\<lambda>coords. Inr (bounds_of (evens coords) (odds coords)))
             else Inr None)
      else Inr None)"

definition get_element_bounds :: "element \<Rightarrow> error + rect option" where
  \<comment> \<open>the second half: \<open>if transform and bounds\<close>, the translation found in the element's
      own \<open>transform\<close> is added\<close>
  "get_element_bounds e =
     bnd (shape_bounds e) (\<lambda>bounds.
       (case (get_attr e ''transform'', bounds) of
          (Some transform, Some b) \<Rightarrow>
            if transform \<noteq> [] then
              (case translate_match transform of
                 None \<Rightarrow> Inr (Some b)
               | Some r \<Rightarrow> bnd r (\<lambda>(tx, ty). Inr (Some (shift b tx ty))))
            else Inr (Some b)
        | _ \<Rightarrow> Inr bounds))"

subsection \<open>\<open>trim_svg.py\<close>: all elements, and the new viewport\<close>

fun iter :: "element \<Rightarrow> element list" where
  \<comment> \<open>\<open>root.iter()\<close>: the element and all its descendants, in document order\<close>
  "iter (Element t a cs) = Element t a cs # concat (map iter cs)"

definition skipped :: "element \<Rightarrow> bool" where
  \<comment> \<open>\<open>any(element.tag.endswith(tag) for tag in ['defs', ...])\<close>\<close>
  "skipped e = list_ex (endswith (tag e)) non_visual_tags"

fun aggregate :: "element list \<Rightarrow> extent \<times> bool \<Rightarrow> error + extent \<times> bool" where
  \<comment> \<open>the loop \<open>for element in root.iter()\<close>, on the running values and \<open>has_content\<close>\<close>
  "aggregate [] acc = Inr acc"
| "aggregate (e # es) acc =
     (if skipped e then aggregate es acc
      else (case get_element_bounds e of
              Inl err \<Rightarrow> Inl err
            | Inr None \<Rightarrow> aggregate es acc
            | Inr (Some b) \<Rightarrow> aggregate es (combine (fst acc) (of_rect b), True)))"

record viewport =
  vb_x :: real
  vb_y :: real
  vb_width :: real
  vb_height :: real

definition padded :: "extent \<Rightarrow> viewport option" where
  \<comment> \<open>the \<open>return\<close> of \<open>calculate_content_bounds\<close>, with \<open>padding = 5\<close>. Once a rectangle
      went into the running values all four are finite (\<open>aggregate_finite\<close> below); the
      last case is for the values that are not.\<close>
  "padded ext =
     (case (e_min_x ext, e_max_x ext, e_min_y ext, e_max_y ext) of
        (Fin mnx, Fin mxx, Fin mny, Fin mxy) \<Rightarrow>
          Some \<lparr>vb_x = mnx - 5, vb_y = mny - 5,
                vb_width = mxx - mnx + 2 * 5, vb_height = mxy - mny + 2 * 5\<rparr>
      | _ \<Rightarrow> None)"

definition calculate_content_bounds :: "element \<Rightarrow> error + viewport option" where
  "calculate_content_bounds doc =
     bnd (aggregate (iter doc) (no_content, False))
       (\<lambda>acc. if \<not> snd acc then Inr None else Inr (padded (fst acc)))"

definition size_dims :: "element \<Rightarrow> error + real list" where
  \<comment> \<open>the \<open>else\<close> branch of "Get current viewBox or dimensions" in \<open>trim_svg.py\<close>:
      \<open>re.match(...).group()\<close> raises \<open>AttributeError\<close> where nothing matches\<close>
  "size_dims doc =
     (let width = (case get_attr doc ''width'' of None \<Rightarrow> ''100'' | Some w \<Rightarrow> w);
          height = (case get_attr doc ''height'' of None \<Rightarrow> ''100'' | Some h \<Rightarrow> h)
      in (case re_match NUM width of
            None \<Rightarrow> Inl AttributeError
          | Some w \<Rightarrow>
              (case re_match NUM height of
                 None \<Rightarrow> Inl AttributeError
               | Some h \<Rightarrow> bnd (to_float w) (\<lambda>wv. bnd (to_float h) (\<lambda>hv. Inr [0, 0, wv, hv])))))"

definition current_dims :: "element \<Rightarrow> error + real list" where
  \<comment> \<open>"Get current viewBox or dimensions", the values of the closing report\<close>
  "current_dims doc =
     (case get_attr doc ''viewBox'' of
        None \<Rightarrow> size_dims doc
      | Some viewbox \<Rightarrow> if viewbox \<noteq> [] then floats (split_ws [] viewbox) else size_dims doc)"

text \<open>
  The result of a run: what the call does (the value it returns, or the exception it
  raises) and the viewport of the document it wrote to the output path, if it wrote one.
  The closing report reads \<open>current_dims[2]\<close> and \<open>current_dims[3]\<close> after the file is
  written.
\<close>

record trim_result =
  outcome :: "error + bool"
  written :: "viewport option"

definition trim_svg :: "element \<Rightarrow> trim_result" where
  \<comment> \<open>\<open>trim_svg\<close> of \<open>trim_svg.py\<close>, from the parsed root (\<open>doc\<close>) on\<close>
  "trim_svg doc =
     (case current_dims doc of
        Inl e \<Rightarrow> \<lparr>outcome = Inl e, written = None\<rparr>
      | Inr dims \<Rightarrow>
          (case calculate_content_bounds doc of
             Inl e \<Rightarrow> \<lparr>outcome = Inl e, written = None\<rparr>
           | Inr None \<Rightarrow> \<lparr>outcome = Inr False, written = None\<rparr>
           | Inr (Some bounds) \<Rightarrow>
               if length dims < 4 then \<lparr>outcome = Inl IndexError, written = Some bounds\<rparr>
               else \<lparr>outcome = Inr True, written = Some bounds\<rparr>))"

subsection \<open>\<open>trim_svg_fixed.py\<close>\<close>

fun path_points :: "(string \<times> string) list \<Rightarrow> error + (real \<times> real) list" where
  \<comment> \<open>the loop of \<open>get_path_bounds\<close> over the pairs of numbers: a pair on which \<open>float\<close>
      raises is passed over (\<open>except (ValueError, IndexError): continue\<close>)\<close>
  "path_points [] = Inr []"
| "path_points ((a, b) # r) =
     (case bnd (to_float a) (\<lambda>x. bnd (to_float b) (\<lambda>y. Inr (x, y))) of
        Inr p \<Rightarrow> bnd (path_points r) (\<lambda>ps. Inr (p # ps))
      | Inl e \<Rightarrow> if e = ValueError \<or> e = IndexError then path_points r else Inl e)"

definition get_path_bounds :: "string \<Rightarrow> error + rect option" where
  \<comment> \<open>every two numbers of the path are a point\<close>
  "get_path_bounds path_data =
     bnd (path_points (pairs (re_findall NUM_EXP 0 path_data)))
       (\<lambda>pts. Inr (bounds_of (map fst pts) (map snd pts)))"

definition local_name :: "string \<Rightarrow> string" where
  \<comment> \<open>\<open>tag.split('}')[-1] if '}' in tag else tag\<close>\<close>
  "local_name t =
     (if CHR ''}'' \<in> set t then rev (takeWhile (\<lambda>c. c \<noteq> CHR ''}'') (rev t)) else t)"

definition own_bounds :: "element \<Rightarrow> real \<Rightarrow> real \<Rightarrow> error + rect list" where
  \<comment> \<open>"Process the element itself" of \<open>calculate_bounds_recursive\<close>: what the element adds
      to \<open>bounds_list\<close>, given \<open>total_tx\<close> and \<open>total_ty\<close>\<close>
  "own_bounds e total_tx total_ty =
     (let tg = local_name (tag e) in
      if tg = ''path'' then
        (case get_attr e ''d'' of
           None \<Rightarrow> Inr []
         | Some d \<Rightarrow>
             if d \<noteq> [] then
               bnd (get_path_bounds d) (\<lambda>r.
                 case r of None \<Rightarrow> Inr []
                 | Some path_bounds \<Rightarrow> Inr [shift path_bounds total_tx total_ty])
             else Inr [])
      else if tg = ''rect'' then
        bnd (float_attr e ''x'') (\<lambda>x. bnd (float_attr e ''y'') (\<lambda>y.
        bnd (float_attr e ''width'') (\<lambda>width. bnd (float_attr e ''height'') (\<lambda>height.
        Inr [\<lparr>min_x = x + total_tx, max_x = x + width + total_tx,
              min_y = y + total_ty, max_y = y + height + total_ty\<rparr>]))))
      else if tg = ''circle'' then
        bnd (float_attr e ''cx'') (\<lambda>cx. bnd (float_attr e ''cy'') (\<lambda>cy.
        bnd (float_attr e ''r'') (\<lambda>r.
        Inr [\<lparr>min_x = cx - r + total_tx, max_x = cx + r + total_tx,
              min_y = cy - r + total_ty, max_y = cy + r + total_ty\<rparr>])))
      else if tg = ''ellipse'' then
        bnd (float_attr e ''cx'') (\<lambda>cx. bnd (float_attr e ''cy'') (\<lambda>cy.
        bnd (float_attr e ''rx'') (\<lambda>rx. bnd (float_attr e ''ry'') (\<lambda>ry.
        Inr [\<lparr>min_x = cx - rx + total_tx, max_x = cx + rx + total_tx,
              min_y = cy - ry + total_ty, max_y = cy + ry + total_ty\<rparr>]))))
      else if tg = ''line'' then
        bnd (float_attr e ''x1'') (\<lambda>x1. bnd (float_attr e ''y1'') (\<lambda>y1.
        bnd (float_attr e ''x2'') (\<lambda>x2. bnd (float_attr e ''y2'') (\<lambda>y2.
        Inr [\<lparr>min_x = min x1 x2 + total_tx, max_x = max x1 x2 + total_tx,
              min_y = min y1 y2 + total_ty, max_y = max y1 y2 + total_ty\<rparr>]))))
      else if tg = ''polygon'' \<or> tg = ''polyline'' then
        (case get_attr e ''points'' of
           None \<Rightarrow> Inr []
         | Some points \<Rightarrow>
             if points \<noteq> [] then
               bnd (floats (re_findall NUM 0 points)) (\<lambda>coords.
                 if 2 \<le> length coords then
                   (case bounds_of (map (\<lambda>c. c + total_tx) (evens coords))
                                   (map (\<lambda>c. c + total_ty) (odds coords)) of
                      None \<Rightarrow> Inr []
                    | Some b \<Rightarrow> Inr [b])
                 else Inr [])
             else Inr [])
      else Inr [])"

fun calculate_bounds_recursive :: "element \<Rightarrow> real \<times> real \<Rightarrow> error + rect list"
  and children_bounds :: "element list \<Rightarrow> real \<times> real \<Rightarrow> error + rect list" where
  "calculate_bounds_recursive (Element t a cs) parent_transform =
     (case parse_transform (case map_of a ''transform'' of None \<Rightarrow> [] | Some s \<Rightarrow> s) of
        Inl err \<Rightarrow> Inl err
      | Inr txy \<Rightarrow>
          (case own_bounds (Element t a cs) (fst parent_transform + fst txy)
                  (snd parent_transform + snd txy) of
             Inl err \<Rightarrow> Inl err
           | Inr bounds_list \<Rightarrow>
               (case children_bounds cs
                       (fst parent_transform + fst txy, snd parent_transform + snd txy) of
                  Inl err \<Rightarrow> Inl err
                | Inr child_bounds \<Rightarrow> Inr (bounds_list @ child_bounds))))"
| "children_bounds [] off = Inr []"
| "children_bounds (child # cs) off =
     (if local_name (tag child) \<notin> set non_visual_tags then
        (case calculate_bounds_recursive child off of
           Inl err \<Rightarrow> Inl err
         | Inr child_bounds \<Rightarrow>
             (case children_bounds cs off of
                Inl err \<Rightarrow> Inl err
              | Inr others \<Rightarrow> Inr (child_bounds @ others)))
      else children_bounds cs off)"

definition size_dims_fixed :: "element \<Rightarrow> error + real list" where
  \<comment> \<open>the \<open>else\<close> branch of "Get current viewBox" in \<open>trim_svg_fixed.py\<close>: 100 where
      nothing matches\<close>
  "size_dims_fixed doc =
     (let width = (case get_attr doc ''width'' of None \<Rightarrow> ''100'' | Some w \<Rightarrow> w);
          height = (case get_attr doc ''height'' of None \<Rightarrow> ''100'' | Some h \<Rightarrow> h)
      in bnd (case re_match NUM width of None \<Rightarrow> Inr 100 | Some w \<Rightarrow> to_float w) (\<lambda>wv.
         bnd (case re_match NUM height of None \<Rightarrow> Inr 100 | Some h \<Rightarrow> to_float h) (\<lambda>hv.
         Inr [0, 0, wv, hv])))"

definition current_dims_fixed :: "element \<Rightarrow> error + real list" where
  "current_dims_fixed doc =
     (case get_attr doc ''viewBox'' of
        None \<Rightarrow> size_dims_fixed doc
      | Some viewbox \<Rightarrow>
          if viewbox \<noteq> [] then floats (split_ws [] viewbox) else size_dims_fixed doc)"

definition viewport_fixed :: "rect \<Rightarrow> viewport" where
  \<comment> \<open>"Add padding" of \<open>trim_svg_fixed.py\<close>, on the merged bounds: \<open>min_x\<close> and \<open>min_y\<close>
      are lowered by the padding first, and the width and the height are computed from
      the lowered values\<close>
  "viewport_fixed m =
     (let padding = 10;
          min_x' = min_x m - padding;
          min_y' = min_y m - padding;
          width = max_x m - min_x' + 2 * padding;
          height = max_y m - min_y' + 2 * padding
      in \<lparr>vb_x = min_x', vb_y = min_y', vb_width = width, vb_height = height\<rparr>)"

definition trim_svg_fixed :: "element \<Rightarrow> trim_result" where
  \<comment> \<open>\<open>trim_svg\<close> of \<open>trim_svg_fixed.py\<close>, from the parsed root (\<open>doc\<close>) on\<close>
  "trim_svg_fixed doc =
     (case current_dims_fixed doc of
        Inl e \<Rightarrow> \<lparr>outcome = Inl e, written = None\<rparr>
      | Inr dims \<Rightarrow>
          (case calculate_bounds_recursive doc (0, 0) of
             Inl e \<Rightarrow> \<lparr>outcome = Inl e, written = None\<rparr>
           | Inr all_bounds \<Rightarrow>
               if all_bounds = [] then \<lparr>outcome = Inr False, written = None\<rparr>
               else if length dims < 4
               then \<lparr>outcome = Inl IndexError, written = Some (viewport_fixed (merge_all all_bounds))\<rparr>
               else \<lparr>outcome = Inr True, written = Some (viewport_fixed (merge_all all_bounds))\<rparr>))"

subsection \<open>Shapes with sizes that are not negative\<close>




subsection \<open>Aggregation is componentwise minimum and maximum\<close>










subsection \<open>Evaluation on concrete documents\<close>

lemmas rx_defs = NUM_def NUM_EXP_def CMD_def TRANSLATE_def is_digit_def is_space_def is_cmd_def
  re_match_def

lemmas float_defs = to_float_def decimal_def fstrip_def is_fspace_def unsigned_def negative_def
  is_inf_nan_def lower_def digits_val_def digit_val_def bnd_def

lemmas shape_defs = get_attr_def float_attr_def endswith_def shape_bounds_def
  get_element_bounds_def translate_match_def parse_transform_def shift_def bounds_of_def
  py_min_def py_max_def strip_def

lemmas path_defs = parse_path_bounds_def path_cmd_def line_abs_def line_rel_def

lemmas walk_defs = skipped_def non_visual_tags_def calculate_content_bounds_def padded_def
  combine_def of_rect_def no_content_def xmin_def xmax_def trim_svg_def current_dims_def
  size_dims_def

lemmas fixed_defs = get_path_bounds_def local_name_def own_bounds_def current_dims_fixed_def
  size_dims_fixed_def viewport_fixed_def merge_all_def trim_svg_fixed_def non_visual_tags_def

subsection \<open>The padded viewport\<close>

text \<open>
  \<open>trim_svg.py\<close> pads the aggregate by 5 on every side: the width grows by twice the
  padding.
\<close>

lemma padded_formula:
  "padded (of_rect r) = Some \<lparr>vb_x = min_x r - 5, vb_y = min_y r - 5,
      vb_width = (max_x r - min_x r) + 2 * 5, vb_height = (max_y r - min_y r) + 2 * 5\<rparr>"
  by (simp add: padded_def of_rect_def)

text \<open>
  \<open>trim_svg_fixed.py\<close> lowers \<open>min_x\<close> and \<open>min_y\<close> by the padding of 10 and then
  computes the width and the height from the lowered values: they grow by three times
  the padding.
\<close>

lemma viewport_fixed_formula:
  "viewport_fixed m = \<lparr>vb_x = min_x m - 10, vb_y = min_y m - 10,
      vb_width = (max_x m - min_x m) + 3 * 10, vb_height = (max_y m - min_y m) + 3 * 10\<rparr>"
  by (simp add: viewport_fixed_def Let_def)

text \<open>
  Claim C1 says that the viewport is \<open>(min_x - P, min_y - P, (max_x - min_x) + 2P,
  (max_y - min_y) + 2P)\<close>, and \<open>-10 -10 120 120\<close> for the bounds (0,0)-(100,100) with
  padding 10. On a document whose only shape is the rectangle (0,0)-(100,100),
  \<open>trim_svg_fixed.py\<close>, the script with padding 10, writes the viewport
  \<open>(-10, -10, 130, 130)\<close>.
\<close>

theorem trim_svg_fixed_pads_width_thrice:
  "trim_svg_fixed (Element ''svg'' []
       [Element ''rect'' [(''x'', ''0''), (''y'', ''0''), (''width'', ''100''),
                          (''height'', ''100'')] []])
   = \<lparr>outcome = Inr True,
      written = Some \<lparr>vb_x = - 10, vb_y = - 10, vb_width = 130, vb_height = 130\<rparr>\<rparr>"
  by (simp add: rx_defs float_defs shape_defs fixed_defs)

subsection \<open>Shapes below a non-visual element\<close>

text \<open>
  \<open>trim_svg_fixed.py\<close> does not descend into a child with a non-visual tag.
\<close>

lemma children_bounds_skip:
  "local_name (tag c) \<in> set non_visual_tags \<Longrightarrow> children_bounds (c # cs) off = children_bounds cs off"
  by simp

lemma bounds_recursive_skips_defs:
  "calculate_bounds_recursive (Element ''svg'' []
       [Element ''defs'' []
          [Element ''rect'' [(''x'', ''0''), (''y'', ''0''), (''width'', ''100''),
                             (''height'', ''100'')] []],
        Element ''rect'' [(''x'', ''10''), (''y'', ''10''), (''width'', ''20''),
                          (''height'', ''30'')] []]) (0, 0)
     = Inr [\<lparr>min_x = 10, max_x = 30, min_y = 10, max_y = 40\<rparr>]"
  by (simp add: rx_defs float_defs shape_defs fixed_defs)

text \<open>
  Claim C2 says that a shape below a non-visual container adds nothing to the aggregate.
  In \<open>trim_svg.py\<close> the loop over \<open>root.iter()\<close> passes over the \<open>defs\<close> element
  itself and still visits its children: with a rectangle (0,0)-(100,100) inside \<open>defs\<close>
  the result is the padded box of that rectangle, and without it the padded box of the
  one visible rectangle (10,10)-(30,40).
\<close>

theorem content_bounds_counts_rect_in_defs:
  "calculate_content_bounds (Element ''svg'' []
       [Element ''defs'' []
          [Element ''rect'' [(''x'', ''0''), (''y'', ''0''), (''width'', ''100''),
                             (''height'', ''100'')] []],
        Element ''rect'' [(''x'', ''10''), (''y'', ''10''), (''width'', ''20''),
                          (''height'', ''30'')] []])
     = Inr (Some \<lparr>vb_x = - 5, vb_y = - 5, vb_width = 110, vb_height = 110\<rparr>)
   \<and> calculate_content_bounds (Element ''svg'' []
       [Element ''defs'' [] [],
        Element ''rect'' [(''x'', ''10''), (''y'', ''10''), (''width'', ''20''),
                          (''height'', ''30'')] []])
     = Inr (Some \<lparr>vb_x = 5, vb_y = 5, vb_width = 30, vb_height = 40\<rparr>)"
  by (simp add: rx_defs float_defs shape_defs walk_defs)

subsection \<open>Translations of the ancestors\<close>

text \<open>
  \<open>trim_svg_fixed.py\<close> hands the sum of the translations down the tree: a rectangle
  (0,0)-(10,10) with \<open>translate(5,5)\<close> below a group with \<open>translate(3,0)\<close> is moved
  by (8,5).
\<close>

lemma bounds_recursive_adds_parent_translate:
  "calculate_bounds_recursive (Element ''svg'' []
       [Element ''g'' [(''transform'', ''translate(3,0)'')]
         [Element ''rect'' [(''transform'', ''translate(5,5)''), (''x'', ''0''), (''y'', ''0''),
                            (''width'', ''10''), (''height'', ''10'')] []]]) (0, 0)
     = Inr [\<lparr>min_x = 8, max_x = 18, min_y = 5, max_y = 15\<rparr>]"
  by (simp add: rx_defs float_defs shape_defs fixed_defs)

text \<open>
  Claim C3 says that the offset of a node is the sum of its own translation and those of
  all its ancestors, (8,5) in the example. \<open>trim_svg.py\<close> adds the translation of the
  element itself only: on the same document the rectangle is moved by (5,5).
\<close>

theorem aggregate_ignores_parent_translate:
  "aggregate (iter (Element ''svg'' []
       [Element ''g'' [(''transform'', ''translate(3,0)'')]
         [Element ''rect'' [(''transform'', ''translate(5,5)''), (''x'', ''0''), (''y'', ''0''),
                            (''width'', ''10''), (''height'', ''10'')] []]])) (no_content, False)
     = Inr (of_rect \<lparr>min_x = 5, max_x = 15, min_y = 5, max_y = 15\<rparr>, True)"
  by (simp add: rx_defs float_defs shape_defs walk_defs)

subsection \<open>The relative path commands\<close>

text \<open>
  The chain of \<open>parse_path_bounds\<close> has branches for \<open>m l h v c\<close> and none for
  \<open>s q t a\<close>: these four leave the cursor and the points as they are.
\<close>

lemma path_cmd_sqta:
  "path_cmd CHR ''s'' coords st = st"
  "path_cmd CHR ''q'' coords st = st"
  "path_cmd CHR ''t'' coords st = st"
  "path_cmd CHR ''a'' coords st = st"
  by (simp_all add: path_cmd_def)

text \<open>
  Claim C5 says that \<open>s\<close>, \<open>q\<close>, \<open>t\<close> and \<open>a\<close> read their operands in groups of 4, 4, 2
  and 7 and emit the points of their uppercase counterparts, relative to the cursor. In
  \<open>trim_svg.py\<close> the path \<open>M0,0 s1,2,3,4\<close> has the bounds (0,0)-(0,0), where
  \<open>M0,0 S1,2,3,4\<close> has (0,0)-(3,4).
\<close>

theorem parse_path_bounds_drops_relative_sqta:
  "parse_path_bounds ''M0,0 s1,2,3,4''
     = Inr (Some \<lparr>min_x = 0, max_x = 0, min_y = 0, max_y = 0\<rparr>)
   \<and> parse_path_bounds ''M0,0 S1,2,3,4''
     = Inr (Some \<lparr>min_x = 0, max_x = 3, min_y = 0, max_y = 4\<rparr>)"
  by (simp add: rx_defs float_defs shape_defs path_defs)

subsection \<open>Transform strings without a translation\<close>








subsection \<open>Minimum below maximum\<close>

text \<open>
  \<open>min\<close> of a list is below every element and \<open>max\<close> above.
\<close>

lemma foldl_min_le: "foldl (\<lambda>m v. if v < m then v else m) a xs \<le> (a::real)"
  by (induction xs arbitrary: a) (auto intro: order_trans less_imp_le)

lemma foldl_min_le_mem:
  "x \<in> set xs \<Longrightarrow> foldl (\<lambda>m v. if v < m then v else m) a xs \<le> (x::real)"
proof (induction xs arbitrary: a)
  case Nil
  then show ?case by simp
next
  case (Cons y ys)
  show ?case
  proof (cases "x = y")
    case True
    have "foldl (\<lambda>m v. if v < m then v else m) (if y < a then y else a) ys
            \<le> (if y < a then y else a)"
      by (rule foldl_min_le)
    also have "\<dots> \<le> y" by simp
    finally show ?thesis using True by simp
  next
    case False
    with Cons.prems have "x \<in> set ys" by simp
    then show ?thesis using Cons.IH by simp
  qed
qed

lemma foldl_max_ge: "(a::real) \<le> foldl (\<lambda>m v. if m < v then v else m) a xs"
proof (induction xs arbitrary: a)
  case Nil
  then show ?case by simp
next
  case (Cons y ys)
  have "a \<le> (if a < y then y else a)" by simp
  also have "\<dots> \<le> foldl (\<lambda>m v. if m < v then v else m) (if a < y then y else a) ys"
    by (rule Cons.IH)
  finally show ?case by simp
qed

lemma foldl_max_ge_mem:
  "x \<in> set xs \<Longrightarrow> (x::real) \<le> foldl (\<lambda>m v. if m < v then v else m) a xs"
proof (induction xs arbitrary: a)
  case Nil
  then show ?case by simp
next
  case (Cons y ys)
  show ?case
  proof (cases "x = y")
    case True
    have "y \<le> (if a < y then y else a)" by simp
    also have "\<dots> \<le> foldl (\<lambda>m v. if m < v then v else m) (if a < y then y else a) ys"
      by (rule foldl_max_ge)
    finally show ?thesis using True by simp
  next
    case False
    with Cons.prems have "x \<in> set ys" by simp
    then show ?thesis using Cons.IH by simp
  qed
qed

lemma py_min_le_mem: "x \<in> set xs \<Longrightarrow> py_min xs \<le> x"
  by (cases xs) (auto simp: py_min_def foldl_min_le foldl_min_le_mem)

lemma py_max_ge_mem: "x \<in> set xs \<Longrightarrow> x \<le> py_max xs"
  by (cases xs) (auto simp: py_max_def foldl_max_ge foldl_max_ge_mem)














subsection \<open>Polygons with an odd number of coordinates\<close>

text \<open>
  A tag that ends with \<open>polygon\<close> ends with none of the tags that \<open>trim_svg.py\<close> tests
  before it. This is different for \<open>polyline\<close>, which ends with \<open>line\<close>: the chain of
  \<open>get_element_bounds\<close> takes the \<open>line\<close> branch for it and its \<open>points\<close> are not read.
\<close>

lemma endswith_last: "endswith s suf \<Longrightarrow> suf \<noteq> [] \<Longrightarrow> last s = last suf"
proof -
  assume a: "endswith s suf" and n: "suf \<noteq> []"
  then have d: "drop (length s - length suf) s = suf" and l: "length suf \<le> length s"
    by (simp_all add: endswith_def)
  from l n have "length s - length suf < length s" by (cases suf) auto
  then have "last (drop (length s - length suf) s) = last s" by (rule last_drop)
  with d show ?thesis by simp
qed

lemma polygon_not_other:
  assumes "endswith t ''polygon''"
  shows "\<not> endswith t ''rect''" "\<not> endswith t ''circle''" "\<not> endswith t ''ellipse''"
    "\<not> endswith t ''path''" "\<not> endswith t ''line''"
  using endswith_last [OF assms] endswith_last [of t "''rect''"] endswith_last [of t "''circle''"]
    endswith_last [of t "''ellipse''"] endswith_last [of t "''path''"]
    endswith_last [of t "''line''"]
  by auto

lemma last_in_evens: "odd (length xs) \<Longrightarrow> last xs \<in> set (evens xs)"
  by (induction xs rule: evens.induct) auto

lemma length_evens_odd: "odd (length xs) \<Longrightarrow> length (evens xs) = Suc (length (odds xs))"
  by (induction xs rule: evens.induct) auto

lemma evens_odds_nonempty: "2 \<le> length xs \<Longrightarrow> evens xs \<noteq> [] \<and> odds xs \<noteq> []"
  by (cases xs rule: evens.cases) auto

lemma polyline_read_as_line:
  "shape_bounds (Element ''polyline'' [(''points'', ''0,0 10,10 20'')] [])
     = Inr (Some \<lparr>min_x = 0, max_x = 0, min_y = 0, max_y = 0\<rparr>)"
  by (simp add: rx_defs float_defs shape_defs)

text \<open>
  Claim C10 says that for every odd number of coordinates the last one, which has no
  partner, still takes part in \<open>min_x\<close> and \<open>max_x\<close>. With one coordinate there is no
  \<open>y\<close> at all, and neither script produces a rectangle: \<open>if x_coords and y_coords\<close> in
  both, and \<open>if len(coords) >= 2\<close> before it in \<open>trim_svg_fixed.py\<close>.
\<close>

theorem polygon_single_token_counterexample:
  "floats (re_findall NUM 0 ''5'') = Inr [5]
   \<and> shape_bounds (Element ''polygon'' [(''points'', ''5'')] []) = Inr None
   \<and> own_bounds (Element ''polygon'' [(''points'', ''5'')] []) 0 0 = Inr []
   \<and> own_bounds (Element ''polyline'' [(''points'', ''5'')] []) 0 0 = Inr []"
  by (simp add: rx_defs float_defs shape_defs fixed_defs)

text \<open>
  Claim C10 as amended. For a polygon (and, in \<open>trim_svg_fixed.py\<close>, a polyline) whose
  \<open>points\<close> hold an odd number of coordinates, three or more, the \<open>x\<close> values are the
  coordinates at the even positions and the \<open>y\<close> values those at the odd positions; the
  last coordinate is one of the \<open>x\<close> values, there is one \<open>x\<close> value more than there are
  \<open>y\<close> values, and \<open>min_x\<close> and \<open>max_x\<close> of the rectangle enclose the last coordinate
  (moved by the offset in \<open>trim_svg_fixed.py\<close>).
\<close>

theorem polygon_odd_tokens:
  assumes "get_attr e ''points'' = Some points" and "points \<noteq> []"
    and "floats (re_findall NUM 0 points) = Inr coords"
    and "odd (length coords)" and "3 \<le> length coords"
  shows "(endswith (tag e) ''polygon'' \<longrightarrow>
            shape_bounds e = Inr (Some \<lparr>min_x = py_min (evens coords), max_x = py_max (evens coords),
                                        min_y = py_min (odds coords), max_y = py_max (odds coords)\<rparr>))
       \<and> (local_name (tag e) = ''polygon'' \<or> local_name (tag e) = ''polyline'' \<longrightarrow>
            own_bounds e tx ty =
              Inr [\<lparr>min_x = py_min (map (\<lambda>c. c + tx) (evens coords)),
                    max_x = py_max (map (\<lambda>c. c + tx) (evens coords)),
                    min_y = py_min (map (\<lambda>c. c + ty) (odds coords)),
                    max_y = py_max (map (\<lambda>c. c + ty) (odds coords))\<rparr>])
       \<and> last coords \<in> set (evens coords)
       \<and> length (evens coords) = Suc (length (odds coords))
       \<and> py_min (evens coords) \<le> last coords \<and> last coords \<le> py_max (evens coords)
       \<and> py_min (map (\<lambda>c. c + tx) (evens coords)) \<le> last coords + tx
       \<and> last coords + tx \<le> py_max (map (\<lambda>c. c + tx) (evens coords))"
proof -
  from assms(5) have ne: "evens coords \<noteq> []" "odds coords \<noteq> []" and two: "2 \<le> length coords"
    using evens_odds_nonempty [of coords] by auto
  have l: "last coords \<in> set (evens coords)" using assms(4) by (rule last_in_evens)
  have 1: "endswith (tag e) ''polygon'' \<longrightarrow>
            shape_bounds e = Inr (Some \<lparr>min_x = py_min (evens coords), max_x = py_max (evens coords),
                                        min_y = py_min (odds coords), max_y = py_max (odds coords)\<rparr>)"
    using assms(1,2,3) ne
    by (auto simp: shape_bounds_def polygon_not_other bnd_def bounds_of_def)
  have 2: "local_name (tag e) = ''polygon'' \<or> local_name (tag e) = ''polyline'' \<longrightarrow>
            own_bounds e tx ty =
              Inr [\<lparr>min_x = py_min (map (\<lambda>c. c + tx) (evens coords)),
                    max_x = py_max (map (\<lambda>c. c + tx) (evens coords)),
                    min_y = py_min (map (\<lambda>c. c + ty) (odds coords)),
                    max_y = py_max (map (\<lambda>c. c + ty) (odds coords))\<rparr>]"
    using assms(1,2,3) ne two
    by (auto simp: own_bounds_def bnd_def bounds_of_def)
  have 3: "length (evens coords) = Suc (length (odds coords))"
    using assms(4) by (rule length_evens_odd)
  have 4: "py_min (evens coords) \<le> last coords" "last coords \<le> py_max (evens coords)"
    using l by (simp_all add: py_min_le_mem py_max_ge_mem)
  have "last coords + tx \<in> set (map (\<lambda>c. c + tx) (evens coords))" using l by auto
  then have 5: "py_min (map (\<lambda>c. c + tx) (evens coords)) \<le> last coords + tx"
    "last coords + tx \<le> py_max (map (\<lambda>c. c + tx) (evens coords))"
    by (simp_all add: py_min_le_mem py_max_ge_mem)
  from 1 2 3 4 5 l show ?thesis by blast
qed

theorem polygon_odd_tokens_witness:
  "get_attr (Element ''polygon'' [(''points'', ''0,0 10,10 20'')] []) ''points'' = Some ''0,0 10,10 20''
   \<and> floats (re_findall NUM 0 ''0,0 10,10 20'') = Inr [0, 0, 10, 10, 20]
   \<and> odd (length [0, 0, 10, 10, 20 :: real]) \<and> 3 \<le> length [0, 0, 10, 10, 20 :: real]
   \<and> shape_bounds (Element ''polygon'' [(''points'', ''0,0 10,10 20'')] [])
       = Inr (Some \<lparr>min_x = 0, max_x = 20, min_y = 0, max_y = 10\<rparr>)
   \<and> own_bounds (Element ''polygon'' [(''points'', ''0,0 10,10 20'')] []) 1 2
       = Inr [\<lparr>min_x = 1, max_x = 21, min_y = 2, max_y = 12\<rparr>]
   \<and> last [0, 0, 10, 10, 20 :: real] \<in> set (evens [0, 0, 10, 10, 20])
   \<and> length (evens [0, 0, 10, 10, 20 :: real]) = Suc (length (odds [0, 0, 10, 10, 20 :: real]))"
proof -
  let ?e = "Element ''polygon'' [(''points'', ''0,0 10,10 20'')] []"
  let ?cs = "[0, 0, 10, 10, 20 :: real]"
  have a: "get_attr ?e ''points'' = Some ''0,0 10,10 20''" by (simp add: get_attr_def)
  have b: "''0,0 10,10 20'' \<noteq> []" by simp
  have c: "floats (re_findall NUM 0 ''0,0 10,10 20'') = Inr ?cs"
    by (simp add: rx_defs float_defs)
  have d: "odd (length ?cs)" "3 \<le> length ?cs" by simp_all
  have t: "endswith (tag ?e) ''polygon''" "local_name (tag ?e) = ''polygon''"
    by (simp_all add: endswith_def local_name_def)
  note th = polygon_odd_tokens [OF a b c d, of 1 2]
  from th t a c show ?thesis
    by (simp add: py_min_def py_max_def)
qed

end
